theory Spec2Isabelle
  imports Complex_Main "HOL-Library.Multiset"
begin

section \<open>Data model of the QSAR modelling notebook\<close>

text \<open>
  The notebook \<^verbatim>\<open>QSAR_modelling.ipynb\<close> is a sequence of cells over pandas tables.
  A table is the list of its rows in positional order. A cell read from the
  tab-separated file is a value or missing (pandas' NaN), so the columns of the raw table
  hold options. The target value \<^verbatim>\<open>pchembl_value_Median\<close> is a float in the notebook;
  a cell holds the real number that float denotes. The definitions below compare such
  values and never compute with them.
\<close>

record bioactivity =
  SMILES :: string
  accession :: "string option"
  Quality :: "string option"
  pchembl_value_Median :: "real option"

text \<open>\<^verbatim>\<open>dataset.addScaffolds([Murcko()])\<close> adds the column \<^verbatim>\<open>Scaffold_Murcko\<close>.\<close>

record compound = bioactivity +
  Scaffold_Murcko :: string

text \<open>
  The scaffold table of the exploration cell: the index label is the scaffold, the two
  columns are \<^verbatim>\<open>Average pchembl value\<close> and \<^verbatim>\<open>Count\<close>. pandas computes the averages
  in floating point; that computation is not part of this development, which takes a
  scaffold table as given.
\<close>

record scaffold_row =
  Scaffold :: string
  Average_pchembl_value :: "real option"
  Count :: "int option"

datatype error = ItemWrongLength | NameError

section \<open>Data acquisition: the accession and quality filters\<close>

text \<open>\<^verbatim>\<open>df[col] == v\<close>: the boolean column; a missing cell compares unequal.\<close>

definition col_eq :: "('r \<Rightarrow> string option) \<Rightarrow> string \<Rightarrow> 'r list \<Rightarrow> bool list" where
  "col_eq col v df = map (\<lambda>r. col r = Some v) df"

text \<open>\<^verbatim>\<open>df[col].isin(vs)\<close> for a list of strings; a missing cell is in no such list.\<close>

definition isin :: "('r \<Rightarrow> string option) \<Rightarrow> string list \<Rightarrow> 'r list \<Rightarrow> bool list" where
  "isin col vs df = map (\<lambda>r. case col r of None \<Rightarrow> False | Some q \<Rightarrow> q \<in> set vs) df"

text \<open>
  \<^verbatim>\<open>df[mask]\<close>: boolean indexing keeps the rows whose mask entry is true, in order, as a
  new table; pandas raises \<^verbatim>\<open>ValueError: Item wrong length\<close> when the mask has another
  length than the table.
\<close>

definition getitem_mask :: "'r list \<Rightarrow> bool list \<Rightarrow> error + 'r list" where
  "getitem_mask df msk =
     (if length msk \<noteq> length df then Inl ItemWrongLength
      else Inr (map fst (filter snd (zip df msk))))"

text \<open>\<^verbatim>\<open>df[df['accession'] == MY_TARGET]\<close>\<close>

definition filter_accession :: "('a bioactivity_scheme) list \<Rightarrow> string \<Rightarrow> error + ('a bioactivity_scheme) list" where
  "filter_accession df MY_TARGET = getitem_mask df (col_eq accession MY_TARGET df)"

text \<open>\<^verbatim>\<open>df[df['Quality'].isin(['High'])]\<close>, with the list of allowed tiers as a parameter.\<close>

definition filter_quality :: "('a bioactivity_scheme) list \<Rightarrow> string list \<Rightarrow> error + ('a bioactivity_scheme) list" where
  "filter_quality df tiers = getitem_mask df (isin Quality tiers df)"

text \<open>The two statements of the cell, one after the other; an exception ends the cell.\<close>

definition filter_data :: "('a bioactivity_scheme) list \<Rightarrow> string \<Rightarrow> string list \<Rightarrow> error + ('a bioactivity_scheme) list" where
  "filter_data df MY_TARGET tiers =
     (case filter_accession df MY_TARGET of
        Inl e \<Rightarrow> Inl e
      | Inr df1 \<Rightarrow> filter_quality df1 tiers)"

subsection \<open>The cell on a store\<close>

text \<open>
  The notebook writes \<^verbatim>\<open>df = df[...]\<close>: the right-hand side builds a new table object and
  the name \<^verbatim>\<open>df\<close> is bound to it. The store maps object references to tables;
  \<open>var_df\<close> is the reference the name \<^verbatim>\<open>df\<close> is bound to and \<open>next_ref\<close> the next
  unused reference.
\<close>

record pystate =
  heap :: "nat \<rightharpoonup> bioactivity list"
  var_df :: nat
  next_ref :: nat

definition assign_df :: "pystate \<Rightarrow> bioactivity list \<Rightarrow> pystate" where
  "assign_df s t = s\<lparr>heap := (heap s)(next_ref s \<mapsto> t), var_df := next_ref s, next_ref := Suc (next_ref s)\<rparr>"

definition stmt_filter_accession :: "string \<Rightarrow> pystate \<Rightarrow> error + pystate" where
  "stmt_filter_accession MY_TARGET s =
     (case heap s (var_df s) of
        None \<Rightarrow> Inl NameError
      | Some t \<Rightarrow> (case filter_accession t MY_TARGET of
                    Inl e \<Rightarrow> Inl e
                  | Inr t' \<Rightarrow> Inr (assign_df s t')))"

definition stmt_filter_quality :: "string list \<Rightarrow> pystate \<Rightarrow> error + pystate" where
  "stmt_filter_quality tiers s =
     (case heap s (var_df s) of
        None \<Rightarrow> Inl NameError
      | Some t \<Rightarrow> (case filter_quality t tiers of
                    Inl e \<Rightarrow> Inl e
                  | Inr t' \<Rightarrow> Inr (assign_df s t')))"

definition filter_cell :: "string \<Rightarrow> string list \<Rightarrow> pystate \<Rightarrow> error + pystate" where
  "filter_cell MY_TARGET tiers s =
     (case stmt_filter_accession MY_TARGET s of
        Inl e \<Rightarrow> Inl e
      | Inr s1 \<Rightarrow> stmt_filter_quality tiers s1)"

section \<open>Exploration: sorting, minimum-count filter, display limits\<close>

text \<open>
  \<^verbatim>\<open>sort_values(by=..., ascending=False)\<close>: the result holds the rows of the table, those
  with a value first, in descending order of the value, and those without a value last,
  in their original order. pandas' default sort does not fix the order of rows with equal
  values, so the result is described by a predicate on the table and a candidate result,
  not by a function.
\<close>

definition is_sort_values_desc :: "('r \<Rightarrow> real option) \<Rightarrow> 'r list \<Rightarrow> 'r list \<Rightarrow> bool" where
  "is_sort_values_desc key df out =
     (let n = length (filter (\<lambda>r. key r \<noteq> None) df) in
        mset (take n out) = mset (filter (\<lambda>r. key r \<noteq> None) df)
      \<and> sorted_wrt (\<lambda>a b. case (key a, key b) of (Some x, Some y) \<Rightarrow> x \<ge> y | _ \<Rightarrow> False)
            (take n out)
      \<and> drop n out = filter (\<lambda>r. key r = None) df)"

text \<open>
  \<^verbatim>\<open>scaffolds[scaffolds['Count'] > MIN_COMPOUNDS]\<close>: the comparison is false on a missing
  count.
\<close>

definition count_gt :: "int \<Rightarrow> scaffold_row list \<Rightarrow> bool list" where
  "count_gt MIN_COMPOUNDS scaffolds =
     map (\<lambda>r. case Count r of None \<Rightarrow> False | Some c \<Rightarrow> c > MIN_COMPOUNDS) scaffolds"

definition filter_min_compounds :: "scaffold_row list \<Rightarrow> int \<Rightarrow> error + scaffold_row list" where
  "filter_min_compounds scaffolds MIN_COMPOUNDS =
     getitem_mask scaffolds (count_gt MIN_COMPOUNDS scaffolds)"

text \<open>
  \<^verbatim>\<open>xs[:k]\<close>: a Python slice never raises; a stop beyond the end is clamped to the length
  and a negative stop counts from the end.
\<close>

definition slice_to :: "'r list \<Rightarrow> int \<Rightarrow> 'r list" where
  "slice_to xs k =
     (if k \<ge> 0 then take (nat k) xs
      else take (nat (int (length xs) + k)) xs)"

text \<open>\<^verbatim>\<open>dataset_sorted[:NUM_COMPOUNDS]\<close>\<close>

definition top_compounds :: "compound list \<Rightarrow> int \<Rightarrow> compound list" where
  "top_compounds sorted_df NUM_COMPOUNDS = slice_to sorted_df NUM_COMPOUNDS"

text \<open>\<^verbatim>\<open>scaffolds.index[:NUM_SCAFFOLDS]\<close>\<close>

definition top_scaffolds :: "scaffold_row list \<Rightarrow> int \<Rightarrow> string list" where
  "top_scaffolds scaffolds NUM_SCAFFOLDS = slice_to (map Scaffold scaffolds) NUM_SCAFFOLDS"

section \<open>Example inputs\<close>

text \<open>Small concrete tables on which the definitions above are evaluated below.\<close>

definition example_dataset :: "compound list" where
  "example_dataset =
     [\<lparr>SMILES = ''Cc1ccccc1'', accession = Some ''P21802'', Quality = Some ''High'',
       pchembl_value_Median = Some 6, Scaffold_Murcko = ''c1ccccc1''\<rparr>,
      \<lparr>SMILES = ''Cc1ccncc1'', accession = Some ''P21802'', Quality = Some ''High'',
       pchembl_value_Median = Some 9, Scaffold_Murcko = ''c1ccncc1''\<rparr>,
      \<lparr>SMILES = ''CCc1ccccc1'', accession = Some ''P21802'', Quality = Some ''High'',
       pchembl_value_Median = Some 7, Scaffold_Murcko = ''c1ccccc1''\<rparr>]"

text \<open>The example dataset in descending order of the target value.\<close>

definition example_dataset_sorted :: "compound list" where
  "example_dataset_sorted =
     [\<lparr>SMILES = ''Cc1ccncc1'', accession = Some ''P21802'', Quality = Some ''High'',
       pchembl_value_Median = Some 9, Scaffold_Murcko = ''c1ccncc1''\<rparr>,
      \<lparr>SMILES = ''CCc1ccccc1'', accession = Some ''P21802'', Quality = Some ''High'',
       pchembl_value_Median = Some 7, Scaffold_Murcko = ''c1ccccc1''\<rparr>,
      \<lparr>SMILES = ''Cc1ccccc1'', accession = Some ''P21802'', Quality = Some ''High'',
       pchembl_value_Median = Some 6, Scaffold_Murcko = ''c1ccccc1''\<rparr>]"

definition example_scaffolds :: "scaffold_row list" where
  "example_scaffolds =
     [\<lparr>Scaffold = ''c1ccncc1'', Average_pchembl_value = Some 9, Count = Some 7\<rparr>,
      \<lparr>Scaffold = ''c1ccccc1'', Average_pchembl_value = Some 8, Count = Some 5\<rparr>,
      \<lparr>Scaffold = ''c1ccoc1'', Average_pchembl_value = Some 6, Count = Some 3\<rparr>]"

definition example_state :: pystate where
  "example_state =
     \<lparr>heap = [0 \<mapsto> [\<lparr>SMILES = ''CCO'', accession = Some ''P21802'', Quality = Some ''High'',
                       pchembl_value_Median = Some 6.5\<rparr>,
                     \<lparr>SMILES = ''CCN'', accession = Some ''P21802'', Quality = Some ''Low'',
                       pchembl_value_Median = Some 5\<rparr>,
                     \<lparr>SMILES = ''CCC'', accession = Some ''P00533'', Quality = Some ''High'',
                       pchembl_value_Median = None\<rparr>]],
      var_df = 0, next_ref = 1\<rparr>"

section \<open>Properties of the filters\<close>

lemma getitem_mask_map:
  "getitem_mask df (map P df) = Inr (filter P df)"
proof -
  have "map fst (filter snd (zip df (map P df))) = filter P df"
    by (induction df) auto
  then show ?thesis by (simp add: getitem_mask_def)
qed

lemma filter_accession_eq:
  "filter_accession df t = Inr (filter (\<lambda>r. accession r = Some t) df)"
  by (simp add: filter_accession_def col_eq_def getitem_mask_map)

lemma filter_quality_eq:
  "filter_quality df tiers = Inr (filter (\<lambda>r. \<exists>q\<in>set tiers. Quality r = Some q) df)"
  by (auto simp: filter_quality_def isin_def getitem_mask_map
      intro!: filter_cong split: option.splits)

lemma filter_data_eq:
  "filter_data df t tiers =
     Inr (filter (\<lambda>r. accession r = Some t \<and> (\<exists>q\<in>set tiers. Quality r = Some q)) df)"
  by (auto simp: filter_data_def filter_accession_eq filter_quality_eq intro!: filter_cong)

text \<open>When no row matches, the result is the empty table and nothing is raised.\<close>

lemma filter_data_no_match:
  assumes "\<forall>r\<in>set df. \<not> (accession r = Some t \<and> (\<exists>q\<in>set tiers. Quality r = Some q))"
  shows "filter_data df t tiers = Inr []"
  using assms by (simp add: filter_data_eq filter_empty_conv)

lemma filter_cell_eq:
  assumes "heap s (var_df s) = Some tbl"
  shows "filter_cell t tiers s =
     Inr (assign_df (assign_df s (filter (\<lambda>r. accession r = Some t) tbl))
            (filter (\<lambda>r. \<exists>q\<in>set tiers. Quality r = Some q)
               (filter (\<lambda>r. accession r = Some t) tbl)))"
proof -
  have 1: "stmt_filter_accession t s = Inr (assign_df s (filter (\<lambda>r. accession r = Some t) tbl))"
    using assms by (simp add: stmt_filter_accession_def filter_accession_eq)
  have 2: "heap (assign_df s d) (var_df (assign_df s d)) = Some d" for d
    by (simp add: assign_df_def)
  show ?thesis
    by (simp add: filter_cell_def 1 stmt_filter_quality_def 2 filter_quality_eq)
qed

text \<open>
  Claim C5. Filtering a bioactivity table by a target accession and a list of allowed
  quality tiers raises nothing and returns exactly the rows that match both predicates,
  in their order. In particular, when the table has 100 rows of accession \<open>X\<close> and 80
  of them have quality High, filtering by \<open>X\<close> and High returns 80 rows.
\<close>

theorem filter_data_exact:
  "filter_data df t tiers =
     Inr (filter (\<lambda>r. accession r = Some t \<and> (\<exists>q\<in>set tiers. Quality r = Some q)) df)
   \<and> (length (filter (\<lambda>r. accession r = Some X) df) = 100 \<longrightarrow>
      length (filter (\<lambda>r. accession r = Some X \<and> Quality r = Some ''High'') df) = 80 \<longrightarrow>
      (\<exists>out. filter_data df X [''High''] = Inr out \<and> length out = 80))"
  by (simp add: filter_data_eq)

theorem filter_data_exact_witness:
  "(let df = replicate 80 \<lparr>SMILES = ''CCO'', accession = Some ''X'', Quality = Some ''High'',
                            pchembl_value_Median = Some 6.5\<rparr>
           @ replicate 20 \<lparr>SMILES = ''CCN'', accession = Some ''X'', Quality = Some ''Low'',
                            pchembl_value_Median = Some 5\<rparr>
           @ replicate 7 \<lparr>SMILES = ''CCC'', accession = Some ''Y'', Quality = Some ''High'',
                           pchembl_value_Median = None\<rparr>
    in length (filter (\<lambda>r. accession r = Some ''X'') df) = 100
     \<and> length (filter (\<lambda>r. accession r = Some ''X'' \<and> Quality r = Some ''High'') df) = 80
     \<and> (\<exists>out. filter_data df ''X'' [''High''] = Inr out \<and> length out = 80))"
  using filter_data_exact
    [of "replicate 80 \<lparr>SMILES = ''CCO'', accession = Some ''X'', Quality = Some ''High'',
                        pchembl_value_Median = Some 6.5\<rparr>
         @ replicate 20 \<lparr>SMILES = ''CCN'', accession = Some ''X'', Quality = Some ''Low'',
                          pchembl_value_Median = Some 5\<rparr>
         @ replicate 7 \<lparr>SMILES = ''CCC'', accession = Some ''Y'', Quality = Some ''High'',
                         pchembl_value_Median = None\<rparr>" _ _ "''X''"]
  by (simp add: Let_def)

text \<open>
  Claim C6. Filtering is idempotent: filtering the result of the accession filter, of the
  quality filter, or of both in sequence again by the same predicate returns that result
  unchanged. Filtering does not change the source table: running the cell on a store
  where the name \<^verbatim>\<open>df\<close> is bound to a table leaves that table, and every object that
  existed before, as it was; running the cell a second time binds \<^verbatim>\<open>df\<close> to a table
  equal to the one the first run bound it to.
\<close>

theorem filtering_idempotent:
  "(\<exists>d. filter_accession df t = Inr d \<and> filter_accession d t = Inr d)
   \<and> (\<exists>d. filter_quality df tiers = Inr d \<and> filter_quality d tiers = Inr d)
   \<and> (\<exists>d. filter_data df t tiers = Inr d \<and> filter_data d t tiers = Inr d)
   \<and> (heap s (var_df s) = Some tbl \<and> var_df s < next_ref s \<longrightarrow>
       (\<exists>s1 s2. filter_cell t tiers s = Inr s1 \<and> filter_cell t tiers s1 = Inr s2
          \<and> heap s2 (var_df s2) = heap s1 (var_df s1)
          \<and> heap s1 (var_df s) = Some tbl \<and> heap s2 (var_df s) = Some tbl
          \<and> (\<forall>a<next_ref s. heap s1 a = heap s a)))"
proof (intro conjI impI)
  show "\<exists>d. filter_accession df t = Inr d \<and> filter_accession d t = Inr d"
    by (simp add: filter_accession_eq)
  show "\<exists>d. filter_quality df tiers = Inr d \<and> filter_quality d tiers = Inr d"
    by (simp add: filter_quality_eq)
  show "\<exists>d. filter_data df t tiers = Inr d \<and> filter_data d t tiers = Inr d"
    by (simp add: filter_data_eq)
next
  assume a: "heap s (var_df s) = Some tbl \<and> var_df s < next_ref s"
  then show "\<exists>s1 s2. filter_cell t tiers s = Inr s1 \<and> filter_cell t tiers s1 = Inr s2
          \<and> heap s2 (var_df s2) = heap s1 (var_df s1)
          \<and> heap s1 (var_df s) = Some tbl \<and> heap s2 (var_df s) = Some tbl
          \<and> (\<forall>a<next_ref s. heap s1 a = heap s a)"
    by (auto simp: filter_cell_eq assign_df_def intro!: filter_cong)
qed

theorem filtering_idempotent_witness:
  "heap example_state (var_df example_state) \<noteq> None
   \<and> var_df example_state < next_ref example_state
   \<and> (\<exists>s1 s2. filter_cell ''P21802'' [''High''] example_state = Inr s1
          \<and> filter_cell ''P21802'' [''High''] s1 = Inr s2
          \<and> heap s2 (var_df s2) = heap s1 (var_df s1)
          \<and> heap s1 (var_df example_state) = heap example_state (var_df example_state)
          \<and> heap s2 (var_df example_state) = heap example_state (var_df example_state))"
proof -
  obtain tbl where h: "heap example_state (var_df example_state) = Some tbl"
    by (simp add: example_state_def)
  have n: "var_df example_state < next_ref example_state"
    by (simp add: example_state_def)
  from filtering_idempotent [where df = "[] :: bioactivity list" and s = example_state
      and tbl = tbl and t = "''P21802''" and tiers = "[''High'']"] h n
  have "\<exists>s1 s2. filter_cell ''P21802'' [''High''] example_state = Inr s1
          \<and> filter_cell ''P21802'' [''High''] s1 = Inr s2
          \<and> heap s2 (var_df s2) = heap s1 (var_df s1)
          \<and> heap s1 (var_df example_state) = Some tbl
          \<and> heap s2 (var_df example_state) = Some tbl"
    by blast
  with h n show ?thesis by simp
qed

section \<open>Properties of the exploration cells\<close>

text \<open>A sorted result has as many rows as the table.\<close>

lemma is_sort_values_desc_length:
  assumes "is_sort_values_desc key df out"
  shows "length out = length df"
proof -
  let ?n = "length (filter (\<lambda>r. key r \<noteq> None) df)"
  from assms have 1: "mset (take ?n out) = mset (filter (\<lambda>r. key r \<noteq> None) df)"
    and 2: "drop ?n out = filter (\<lambda>r. key r = None) df"
    by (simp_all add: is_sort_values_desc_def Let_def)
  from 1 have a: "length (take ?n out) = ?n" by (rule mset_eq_length)
  from 2 have b: "length (drop ?n out) = length (filter (\<lambda>r. key r = None) df)"
    by (rule arg_cong)
  have "length (take ?n out @ drop ?n out) = length (take ?n out) + length (drop ?n out)"
    by (rule length_append)
  then have c: "length out = length (take ?n out) + length (drop ?n out)"
    by (simp only: append_take_drop_id)
  have d: "?n + length (filter (\<lambda>r. key r = None) df) = length df"
    using sum_length_filter_compl [of "\<lambda>r. key r \<noteq> None" df] by simp
  from a b c d show ?thesis by linarith
qed

text \<open>
  Every table has a sorted result: the rows with a value in stable descending order,
  followed by the rows without one.
\<close>

lemma is_sort_values_desc_exists:
  "\<exists>out. is_sort_values_desc key df out"
proof -
  let ?nn = "filter (\<lambda>r. key r \<noteq> None) df"
  let ?f = "\<lambda>r. the (key r)"
  let ?A = "rev (sort_key ?f (rev ?nn))"
  let ?R = "\<lambda>a b. case (key a, key b) of (Some x, Some y) \<Rightarrow> x \<ge> y | _ \<Rightarrow> False"
  have len: "length ?A = length ?nn" by simp
  have "sorted (map ?f (sort_key ?f (rev ?nn)))" by (rule sorted_sort_key)
  then have "sorted_wrt (\<lambda>a b. ?f a \<ge> ?f b) ?A"
    by (simp add: sorted_wrt_rev sorted_map)
  moreover have "?R a b" if "a \<in> set ?A" "b \<in> set ?A" "?f a \<ge> ?f b" for a b
    using that by auto
  ultimately have "sorted_wrt ?R ?A"
    by (rule sorted_wrt_mono_rel [rotated])
  moreover have "mset ?A = mset ?nn" by simp
  ultimately have "is_sort_values_desc key df (?A @ filter (\<lambda>r. key r = None) df)"
    using len by (simp add: is_sort_values_desc_def Let_def)
  then show ?thesis ..
qed

text \<open>
  The comparison of the minimum-count filter is strict: a scaffold with exactly
  \<^verbatim>\<open>MIN_COMPOUNDS\<close> compounds is dropped.
\<close>

lemma filter_min_compounds_boundary:
  "filter_min_compounds [\<lparr>Scaffold = s, Average_pchembl_value = a, Count = Some n\<rparr>] n = Inr []"
  by (simp add: filter_min_compounds_def count_gt_def getitem_mask_def)

text \<open>
  Claim C3. For every scaffold table and threshold, the minimum-count filter raises
  nothing and keeps, in order, exactly the rows whose count exceeds the threshold: a
  scaffold with a count survives if and only if its count is greater than the threshold,
  and is removed if and only if its count is less than or equal to the threshold.
\<close>

theorem filter_min_compounds_exact:
  "\<exists>out. filter_min_compounds scaffolds MIN_COMPOUNDS = Inr out
     \<and> out = filter (\<lambda>r. \<exists>c. Count r = Some c \<and> c > MIN_COMPOUNDS) scaffolds
     \<and> (\<forall>r\<in>set scaffolds. \<forall>c. Count r = Some c \<longrightarrow>
           ((r \<in> set out) = (c > MIN_COMPOUNDS)) \<and> ((r \<notin> set out) = (c \<le> MIN_COMPOUNDS)))"
  by (auto simp: filter_min_compounds_def count_gt_def getitem_mask_map
      intro!: filter_cong split: option.splits)

theorem filter_min_compounds_exact_witness:
  "\<exists>out. filter_min_compounds example_scaffolds 5 = Inr out
     \<and> \<lparr>Scaffold = ''c1ccncc1'', Average_pchembl_value = Some 9, Count = Some 7\<rparr> \<in> set out
     \<and> \<lparr>Scaffold = ''c1ccccc1'', Average_pchembl_value = Some 8, Count = Some 5\<rparr> \<notin> set out
     \<and> \<lparr>Scaffold = ''c1ccoc1'', Average_pchembl_value = Some 6, Count = Some 3\<rparr> \<notin> set out"
proof -
  from filter_min_compounds_exact [of example_scaffolds 5]
  obtain out where o: "filter_min_compounds example_scaffolds 5 = Inr out"
    and r: "\<forall>r\<in>set example_scaffolds. \<forall>c. Count r = Some c \<longrightarrow>
           ((r \<in> set out) = (c > 5)) \<and> ((r \<notin> set out) = (c \<le> 5))"
    by blast
  from r have "\<lparr>Scaffold = ''c1ccncc1'', Average_pchembl_value = Some 9, Count = Some 7\<rparr> \<in> set out"
    "\<lparr>Scaffold = ''c1ccccc1'', Average_pchembl_value = Some 8, Count = Some 5\<rparr> \<notin> set out"
    "\<lparr>Scaffold = ''c1ccoc1'', Average_pchembl_value = Some 6, Count = Some 3\<rparr> \<notin> set out"
    by (simp_all add: example_scaffolds_def)
  with o show ?thesis by blast
qed

text \<open>
  Claim C10. For every table with \<open>N\<close> rows and every display limit \<open>K\<close>, a number of
  entries, selecting the top \<open>K\<close> entries returns the first \<open>min N K\<close> entries, also when
  \<open>K\<close> exceeds the number of rows; this holds for the compounds of the dataset in any
  order \<^verbatim>\<open>sort_values\<close> may return and for the index of the scaffold table. The slice is a
  total function: it raises nothing.
\<close>

theorem display_limit_min:
  "top_compounds tbl (int K) = take K tbl
   \<and> length (top_compounds tbl (int K)) = min (length tbl) K
   \<and> (is_sort_values_desc pchembl_value_Median df dataset_sorted \<longrightarrow>
        length (top_compounds dataset_sorted (int K)) = min (length df) K)
   \<and> top_scaffolds scaffolds (int K) = take K (map Scaffold scaffolds)
   \<and> length (top_scaffolds scaffolds (int K)) = min (length scaffolds) K"
  by (simp add: top_compounds_def top_scaffolds_def slice_to_def is_sort_values_desc_length)

theorem display_limit_min_witness:
  "is_sort_values_desc pchembl_value_Median example_dataset example_dataset_sorted
   \<and> length (top_compounds example_dataset_sorted (int 2)) = min (length example_dataset) 2
   \<and> length (top_compounds example_dataset_sorted (int 10)) = min (length example_dataset) 10"
proof -
  have h: "is_sort_values_desc pchembl_value_Median example_dataset example_dataset_sorted"
    by (simp add: is_sort_values_desc_def example_dataset_def example_dataset_sorted_def)
  from h display_limit_min [where df = example_dataset and dataset_sorted = example_dataset_sorted
      and K = 2 and tbl = "[]" and scaffolds = "[]"]
    display_limit_min [where df = example_dataset and dataset_sorted = example_dataset_sorted
      and K = 10 and tbl = "[]" and scaffolds = "[]"]
  show ?thesis by blast
qed

end
